theory Spec2Isabelle
  imports Complex_Main
begin

section \<open>JSON values and the Python operations the adapter applies to them\<close>

text \<open>
  The adapter handles decoded JSON throughout (\<^verbatim>\<open>Dict\<close>, \<^verbatim>\<open>List[Dict]\<close>): what
  \<^verbatim>\<open>response.json()\<close> and \<^verbatim>\<open>json.loads\<close> return and what the client hands back.
  A dict is the list of its items (keys distinct, looked up with \<open>map_of\<close>).
  Text is a \<open>string\<close>, one \<open>char\<close> per code point up to 255.
\<close>

datatype json =
    JNull
  | JBool bool
  | JInt int
  | JFloat real
  | JStr string
  | JArr "json list"
  | JObj "(string \<times> json) list"

text \<open>The exception classes of \<^verbatim>\<open>errors.py\<close>.\<close>

datatype gemini_class =
    GeminiError
  | GeminiAPIError
  | GeminiAuthenticationError
  | GeminiRateLimitError
  | GeminiModelNotFoundError
  | GeminiInvalidRequestError
  | GeminiContextLengthExceededError
  | GeminiServerError
  | GeminiTimeoutError

text \<open>
  Every exception the modelled code can raise or let through. \<open>Gemini k m sc\<close> is an
  instance of class \<open>k\<close> of \<^verbatim>\<open>errors.py\<close> built with message \<open>m\<close> and whose
  \<^verbatim>\<open>status_code\<close> attribute is \<open>sc\<close>. The constructors that carry a string carry
  \<^verbatim>\<open>str(e)\<close>. \<open>ClientError\<close> is \<^verbatim>\<open>aiohttp.ClientError\<close> and
  \<open>AsyncioTimeoutError\<close> is \<^verbatim>\<open>asyncio.TimeoutError\<close>, as the transport raises them.
\<close>

datatype exn =
    Gemini gemini_class json "int option"
  | ClientError string
  | AsyncioTimeoutError
  | JSONDecodeError
  | UnicodeDecodeError
  | AttributeError
  | TypeError
  | NameError
  | KeyError string
  | IndexError string

definition and_then :: "exn + 'a \<Rightarrow> ('a \<Rightarrow> exn + 'b) \<Rightarrow> exn + 'b" where
  "and_then r f = (case r of Inl e \<Rightarrow> Inl e | Inr x \<Rightarrow> f x)"

text \<open>Python truth value of a decoded JSON value (\<^verbatim>\<open>if x\<close>, \<^verbatim>\<open>not x\<close>, \<^verbatim>\<open>x or y\<close>).\<close>

fun truthy :: "json \<Rightarrow> bool" where
  "truthy JNull = False"
| "truthy (JBool b) = b"
| "truthy (JInt n) = (n \<noteq> 0)"
| "truthy (JFloat r) = (r \<noteq> 0)"
| "truthy (JStr s) = (s \<noteq> [])"
| "truthy (JArr xs) = (xs \<noteq> [])"
| "truthy (JObj kvs) = (kvs \<noteq> [])"

text \<open>\<^verbatim>\<open>x.get(key, default)\<close>: only a dict has the method.\<close>

fun dict_get :: "json \<Rightarrow> string \<Rightarrow> json \<Rightarrow> exn + json" where
  "dict_get (JObj kvs) k d = Inr (case map_of kvs k of Some v \<Rightarrow> v | None \<Rightarrow> d)"
| "dict_get _ k d = Inl AttributeError"

text \<open>\<^verbatim>\<open>x[0]\<close>. The keys of a decoded JSON object are strings, so \<^verbatim>\<open>0\<close> is never one.\<close>

fun item0 :: "json \<Rightarrow> exn + json" where
  "item0 (JArr []) = Inl (IndexError ''list index out of range'')"
| "item0 (JArr (x # xs)) = Inr x"
| "item0 (JStr []) = Inl (IndexError ''string index out of range'')"
| "item0 (JStr (c # cs)) = Inr (JStr [c])"
| "item0 (JObj kvs) = Inl (KeyError ''0'')"
| "item0 _ = Inl TypeError"

text \<open>\<^verbatim>\<open>x[key]\<close> for a string key.\<close>

fun getitem :: "json \<Rightarrow> string \<Rightarrow> exn + json" where
  "getitem (JObj kvs) k =
     (case map_of kvs k of
        Some v \<Rightarrow> Inr v
      | None \<Rightarrow> Inl (KeyError ([CHR 0x27] @ k @ [CHR 0x27])))"
| "getitem _ k = Inl TypeError"

text \<open>\<^verbatim>\<open>str.lower\<close> on code points up to 255, and \<^verbatim>\<open>x.lower()\<close> on a JSON value.\<close>

definition lower_char :: "char \<Rightarrow> char" where
  "lower_char c =
     (let n = (of_char c :: int)
      in if (65 \<le> n \<and> n \<le> 90) \<or> (192 \<le> n \<and> n \<le> 222 \<and> n \<noteq> 215)
         then char_of (n + 32) else c)"

fun lower :: "json \<Rightarrow> exn + string" where
  "lower (JStr s) = Inr (map lower_char s)"
| "lower _ = Inl AttributeError"

text \<open>\<^verbatim>\<open>needle in hay\<close> on strings.\<close>

fun contains :: "string \<Rightarrow> string \<Rightarrow> bool" where
  "contains needle [] = (needle = [])"
| "contains needle (c # cs) =
     (take (length needle) (c # cs) = needle \<or> contains needle cs)"

text \<open>
  \<^verbatim>\<open>str(v)\<close>, as an f-string and \<^verbatim>\<open>str(e)\<close> apply it. A \<^verbatim>\<open>str\<close> is its own
  text; the text of any other value is the interpreter's, taken as the parameter
  \<open>pystr\<close>.
\<close>

fun str_of :: "(json \<Rightarrow> string) \<Rightarrow> json \<Rightarrow> string" where
  "str_of pystr (JStr s) = s"
| "str_of pystr v = pystr v"

section \<open>\<^verbatim>\<open>errors.py\<close>: the constructors\<close>

definition new_GeminiError :: "json \<Rightarrow> exn" where
  "new_GeminiError message = Gemini GeminiError message None"

definition new_GeminiAPIError :: "json \<Rightarrow> int \<Rightarrow> exn" where
  "new_GeminiAPIError message status_code = Gemini GeminiAPIError message (Some status_code)"

definition new_GeminiAuthenticationError :: "json \<Rightarrow> exn" where
  "new_GeminiAuthenticationError message = Gemini GeminiAuthenticationError message (Some 401)"

definition new_GeminiRateLimitError :: "json \<Rightarrow> exn" where
  "new_GeminiRateLimitError message = Gemini GeminiRateLimitError message (Some 429)"

definition new_GeminiModelNotFoundError :: "(json \<Rightarrow> string) \<Rightarrow> json \<Rightarrow> exn" where
  "new_GeminiModelNotFoundError pystr model =
     Gemini GeminiModelNotFoundError
       (JStr (''Model '' @ [CHR 0x27] @ str_of pystr model @ [CHR 0x27] @ '' not found''))
       (Some 404)"

definition new_GeminiInvalidRequestError :: "json \<Rightarrow> exn" where
  "new_GeminiInvalidRequestError message = Gemini GeminiInvalidRequestError message (Some 400)"

definition new_GeminiContextLengthExceededError :: "json \<Rightarrow> exn" where
  "new_GeminiContextLengthExceededError message =
     Gemini GeminiContextLengthExceededError message (Some 400)"

definition new_GeminiServerError :: "json \<Rightarrow> exn" where
  "new_GeminiServerError message = Gemini GeminiServerError message (Some 500)"

definition new_GeminiTimeoutError :: "json \<Rightarrow> exn" where
  "new_GeminiTimeoutError message = Gemini GeminiTimeoutError message (Some 504)"

section \<open>\<^verbatim>\<open>GeminiClient._process_response\<close>\<close>

text \<open>The body of the \<^verbatim>\<open>try\<close>, statement by statement.\<close>

definition process_response_try :: "json \<Rightarrow> exn + json" where
  "process_response_try data =
     and_then (dict_get data ''candidates'' (JArr [])) (\<lambda>candidates.
       if \<not> truthy candidates
       then Inl (new_GeminiError (JStr ''No response from the model''))
       else
     and_then (item0 candidates) (\<lambda>candidate.
     and_then (dict_get candidate ''content'' (JObj [])) (\<lambda>content.
     and_then (dict_get content ''parts'' (JArr [])) (\<lambda>parts.
       if \<not> truthy parts
       then Inl (new_GeminiError (JStr ''Empty response from the model''))
       else
     and_then (item0 parts) (\<lambda>part.
     and_then (dict_get part ''text'' (JStr [])) (\<lambda>text.
     and_then (item0 candidates) (\<lambda>candidate'.
     and_then (dict_get candidate' ''finishReason'' (JStr ''stop'')) (\<lambda>finish_reason.
       Inr (JObj
         [(''choices'', JArr
             [JObj
                [(''message'', JObj [(''role'', JStr ''assistant''), (''content'', text)]),
                 (''finish_reason'', finish_reason)]]),
          (''usage'', JObj
             [(''prompt_tokens'', JInt 0),
              (''completion_tokens'', JInt 0),
              (''total_tokens'', JInt 0)])])))))))))"

text \<open>The handler \<^verbatim>\<open>except (KeyError, IndexError) as e\<close>.\<close>

definition process_response :: "json \<Rightarrow> exn + json" where
  "process_response data =
     (case process_response_try data of
        Inl (KeyError s) \<Rightarrow> Inl (new_GeminiError (JStr (''Failed to process response: '' @ s)))
      | Inl (IndexError s) \<Rightarrow> Inl (new_GeminiError (JStr (''Failed to process response: '' @ s)))
      | r \<Rightarrow> r)"

section \<open>\<^verbatim>\<open>GeminiClient\<close>: construction and transport\<close>

text \<open>
  The values \<^verbatim>\<open>client.py\<close> and \<^verbatim>\<open>routers/gemini.py\<close> import from
  \<^verbatim>\<open>open_webui.env\<close>.
\<close>

record env =
  env_GEMINI_API_KEY :: "string option"
  env_GEMINI_API_BASE_URL :: "string option"
  env_AIOHTTP_CLIENT_TIMEOUT :: "int option"
  env_ENABLE_GEMINI_API :: bool

record client =
  api_key :: "string option"
  api_base_url :: "string option"
  timeout :: "int option"

text \<open>\<^verbatim>\<open>a or b\<close> on an optional string and on an optional integer.\<close>

fun truthy_str :: "string option \<Rightarrow> bool" where
  "truthy_str None = False"
| "truthy_str (Some s) = (s \<noteq> [])"

fun truthy_int :: "int option \<Rightarrow> bool" where
  "truthy_int None = False"
| "truthy_int (Some n) = (n \<noteq> 0)"

definition or_str :: "string option \<Rightarrow> string option \<Rightarrow> string option" where
  "or_str a b = (if truthy_str a then a else b)"

definition or_int :: "int option \<Rightarrow> int option \<Rightarrow> int option" where
  "or_int a b = (if truthy_int a then a else b)"

text \<open>\<^verbatim>\<open>GeminiClient.__init__\<close>.\<close>

definition GeminiClient_init ::
  "env \<Rightarrow> string option \<Rightarrow> string option \<Rightarrow> int option \<Rightarrow> exn + client" where
  "GeminiClient_init e api_key' api_base_url' timeout' =
     (let self = \<lparr>api_key = or_str api_key' (env_GEMINI_API_KEY e),
                  api_base_url = or_str api_base_url' (env_GEMINI_API_BASE_URL e),
                  timeout = or_int (or_int timeout' (env_AIOHTTP_CLIENT_TIMEOUT e)) (Some 300)\<rparr>
      in if \<not> truthy_str (api_key self)
         then Inl (new_GeminiError (JStr ''Gemini API key is required''))
         else Inr self)"

text \<open>
  The transport. A request is what \<^verbatim>\<open>session.request\<close> is called with; a response
  is what the code reads from it: \<^verbatim>\<open>ok\<close>, \<^verbatim>\<open>status\<close>, the outcome of
  \<^verbatim>\<open>await response.json()\<close>, and the lines that iterating \<^verbatim>\<open>response.content\<close>
  delivers, followed by the exception that ends the iteration, if one does. The transport
  itself is a parameter: it maps the request to an exception raised by the call or to a
  response.
\<close>

record request =
  req_method :: string
  req_url :: string
  req_headers :: "(string \<times> string option) list"
  req_json :: "json option"
  req_total_timeout :: "int option"

record response =
  ok :: bool
  status :: int
  json_body :: "exn + json"
  content :: "string list \<times> exn option"

type_synonym transport = "request \<Rightarrow> exn + response"

text \<open>An optional string inside an f-string.\<close>

fun fstr :: "string option \<Rightarrow> string" where
  "fstr None = ''None''"
| "fstr (Some s) = s"

definition request_of ::
  "client \<Rightarrow> string \<Rightarrow> string \<Rightarrow> (string \<times> json) list option \<Rightarrow> request" where
  "request_of self method endpoint data =
     \<lparr>req_method = method,
      req_url = fstr (api_base_url self) @ ''/'' @ endpoint,
      req_headers = [(''Content-Type'', Some ''application/json''),
                     (''x-goog-api-key'', api_key self)],
      req_json = map_option JObj data,
      req_total_timeout = timeout self\<rparr>"

text \<open>The block under \<^verbatim>\<open>if not response.ok\<close>: the exception it ends in.\<close>

definition requested_model :: "(string \<times> json) list option \<Rightarrow> json" where
  "requested_model data =
     (case data of
        None \<Rightarrow> JStr ''unknown''
      | Some kvs \<Rightarrow>
          if kvs = [] then JStr ''unknown''
          else (case map_of kvs ''model'' of Some v \<Rightarrow> v | None \<Rightarrow> JStr ''unknown''))"

definition classify ::
  "(json \<Rightarrow> string) \<Rightarrow> int \<Rightarrow> json \<Rightarrow> (string \<times> json) list option \<Rightarrow> exn" where
  "classify pystr error_code error_message data =
     (if error_code = 401 then new_GeminiAuthenticationError (JStr ''Invalid API key'')
      else if error_code = 429 then new_GeminiRateLimitError error_message
      else
        (case (if error_code = 404
               then and_then (lower error_message) (\<lambda>low. Inr (contains ''model not found'' low))
               else Inr False) of
           Inl e \<Rightarrow> e
         | Inr True \<Rightarrow> new_GeminiModelNotFoundError pystr (requested_model data)
         | Inr False \<Rightarrow>
             if error_code = 400 then
               (case lower error_message of
                  Inl e \<Rightarrow> e
                | Inr low \<Rightarrow>
                    if contains ''context length exceeded'' low
                    then new_GeminiContextLengthExceededError error_message
                    else new_GeminiInvalidRequestError error_message)
             else if error_code \<ge> 500 then new_GeminiServerError error_message
             else new_GeminiAPIError error_message error_code))"

definition raise_not_ok ::
  "(json \<Rightarrow> string) \<Rightarrow> response \<Rightarrow> (string \<times> json) list option \<Rightarrow> exn" where
  "raise_not_ok pystr response data =
     (case json_body response of
        Inl e \<Rightarrow> e
      | Inr error_data \<Rightarrow>
          (case dict_get error_data ''error'' (JObj []) of
             Inl e \<Rightarrow> e
           | Inr error_info \<Rightarrow>
               (case dict_get error_info ''message'' (JStr ''Unknown error'') of
                  Inl e \<Rightarrow> e
                | Inr error_message \<Rightarrow>
                    classify pystr (status response) error_message data)))"

text \<open>
  The \<^verbatim>\<open>except\<close> clauses around the request (lines 93 to 98). The first names
  \<^verbatim>\<open>aiohttp.ClientTimeout\<close>, the class that line 59 instantiates as the session's
  timeout setting: it is not an exception class, and matching a raised exception against
  such a class raises \<^verbatim>\<open>TypeError\<close>, whatever was raised. So every exception raised
  inside the \<^verbatim>\<open>try\<close>, those of \<^verbatim>\<open>errors.py\<close> among them, leaves it as
  \<^verbatim>\<open>TypeError\<close>; the second and third clause (the third names \<^verbatim>\<open>asyncio\<close>, which
  \<^verbatim>\<open>client.py\<close> never imports) are not reached.
\<close>

definition except_clauses :: "exn \<Rightarrow> exn" where
  "except_clauses e = TypeError"

text \<open>\<^verbatim>\<open>GeminiClient._make_request\<close> (its \<^verbatim>\<open>stream\<close> argument is never read).\<close>

definition make_request ::
  "(json \<Rightarrow> string) \<Rightarrow> client \<Rightarrow> transport \<Rightarrow> string \<Rightarrow> string \<Rightarrow>
   (string \<times> json) list option \<Rightarrow> bool \<Rightarrow> exn + response" where
  "make_request pystr self tr method endpoint data stream =
     (case tr (request_of self method endpoint data) of
        Inl e \<Rightarrow> Inl (except_clauses e)
      | Inr response \<Rightarrow>
          if \<not> ok response then Inl (except_clauses (raise_not_ok pystr response data))
          else Inr response)"

section \<open>\<^verbatim>\<open>GeminiClient\<close>: listing and generation\<close>

definition list_models :: "(json \<Rightarrow> string) \<Rightarrow> client \<Rightarrow> transport \<Rightarrow> exn + json" where
  "list_models pystr self tr =
     and_then (make_request pystr self tr ''GET'' [] None False) (\<lambda>response.
     and_then (json_body response) (\<lambda>data.
     dict_get data ''models'' (JArr [])))"

text \<open>
  \<^verbatim>\<open>generate_content\<close> is not a definition here: as written it is one
  \<^verbatim>\<open>async def\<close> holding both \<^verbatim>\<open>yield\<close> and \<^verbatim>\<open>return\<close> with a value, which Python
  refuses to compile. Two of its parts are: the request body it builds (lines 115 to 124),
  which is the \<^verbatim>\<open>data\<close> it hands to \<^verbatim>\<open>_make_request\<close>, and its loop over the streamed
  lines (lines 138 to 144).
\<close>

text \<open>The list comprehension building \<^verbatim>\<open>contents\<close>.\<close>

fun contents_of :: "json list \<Rightarrow> exn + json list" where
  "contents_of [] = Inr []"
| "contents_of (msg # msgs) =
     and_then (getitem msg ''role'') (\<lambda>role.
     and_then (getitem msg ''content'') (\<lambda>text.
     and_then (contents_of msgs) (\<lambda>rest.
       Inr (JObj [(''role'', role), (''parts'', JArr [JObj [(''text'', text)]])] # rest))))"

definition payload ::
  "json list \<Rightarrow> real option \<Rightarrow> int option \<Rightarrow> exn + (string \<times> json) list" where
  "payload messages temperature max_tokens =
     and_then (contents_of messages) (\<lambda>contents.
       Inr [(''contents'', JArr contents),
            (''generationConfig'', JObj
               [(''temperature'', case temperature of None \<Rightarrow> JNull | Some t \<Rightarrow> JFloat t),
                (''maxOutputTokens'', case max_tokens of None \<Rightarrow> JNull | Some n \<Rightarrow> JInt n)])])"

text \<open>
  The loop over the lines of \<^verbatim>\<open>response.content\<close>: the chunks yielded, and the
  exception that ends the iteration if one does. \<open>loads line\<close> is
  \<^verbatim>\<open>json.loads(line.decode())\<close>, a parameter; \<open>fin\<close> is how the transport ends the
  lines.
\<close>

fun stream_lines ::
  "(string \<Rightarrow> exn + json) \<Rightarrow> string list \<Rightarrow> exn option \<Rightarrow> json list \<times> exn option" where
  "stream_lines loads [] fin = ([], fin)"
| "stream_lines loads (line # rest) fin =
     (if line = [] then stream_lines loads rest fin
      else
        (case and_then (loads line) process_response of
           Inl JSONDecodeError \<Rightarrow> stream_lines loads rest fin
         | Inl e \<Rightarrow> ([], Some e)
         | Inr chunk \<Rightarrow>
             (case stream_lines loads rest fin of (chunks, r) \<Rightarrow> (chunk # chunks, r))))"

section \<open>\<^verbatim>\<open>routers/gemini.py\<close>\<close>

text \<open>
  The module's state: its three globals and the client it builds once, when it is
  imported (\<^verbatim>\<open>gemini_client = GeminiClient()\<close>, line 17).
\<close>

record router =
  GEMINI_API_KEY :: "string option"
  GEMINI_API_BASE_URL :: "string option"
  ENABLE_GEMINI_API :: bool
  gemini_client :: client

record GeminiConfig =
  cfg_api_key :: string
  cfg_api_base_url :: string
  cfg_enabled :: bool

text \<open>\<^verbatim>\<open>update_config\<close>: the value returned and the state after it.\<close>

definition update_config :: "GeminiConfig \<Rightarrow> router \<Rightarrow> GeminiConfig \<times> router" where
  "update_config config s =
     (config,
      s\<lparr>GEMINI_API_KEY := Some (cfg_api_key config),
        GEMINI_API_BASE_URL := Some (cfg_api_base_url config),
        ENABLE_GEMINI_API := cfg_enabled config\<rparr>)"

text \<open>
  The inner generator \<^verbatim>\<open>generate\<close> of \<^verbatim>\<open>chat_completions\<close>, run over what iterating
  the client's generator delivers (the chunks, and the exception that ends it if one
  does): the event strings it yields, and the exception that ends it if one does.
  The module never imports \<^verbatim>\<open>json\<close>, so each of its two \<^verbatim>\<open>json.dumps\<close> calls
  raises \<^verbatim>\<open>NameError\<close>: the one for the first chunk (line 130), inside the
  \<^verbatim>\<open>try\<close>, which \<^verbatim>\<open>except GeminiError\<close> does not catch, and the one inside that
  handler (line 135). The event \<^verbatim>\<open>[DONE]\<close> is reached only when there was no chunk and
  no exception.
\<close>

definition sse :: "string \<Rightarrow> string" where
  "sse text = ''data: '' @ text @ [CHR 0x0A, CHR 0x0A]"

definition generate :: "json list \<times> exn option \<Rightarrow> string list \<times> exn option" where
  "generate run =
     (case fst run of
        chunk # rest \<Rightarrow> ([], Some NameError)
      | [] \<Rightarrow>
          (case snd run of
             None \<Rightarrow> ([sse ''[DONE]''], None)
           | Some (Gemini k m sc) \<Rightarrow> ([], Some NameError)
           | Some e \<Rightarrow> ([], Some e)))"

text \<open>Which class an outcome raised, and with which \<^verbatim>\<open>status_code\<close>.\<close>

fun raised_class :: "exn + 'a \<Rightarrow> gemini_class option" where
  "raised_class (Inl (Gemini k m sc)) = Some k"
| "raised_class _ = None"

fun raised_status_code :: "exn + 'a \<Rightarrow> int option" where
  "raised_status_code (Inl (Gemini k m sc)) = sc"
| "raised_status_code _ = None"

text \<open>\<^verbatim>\<open>issubclass\<close> on the classes of \<^verbatim>\<open>errors.py\<close>.\<close>

fun issubclass :: "gemini_class \<Rightarrow> gemini_class \<Rightarrow> bool" where
  "issubclass k GeminiError = True"
| "issubclass k GeminiAPIError = (k \<noteq> GeminiError)"
| "issubclass k k' = (k = k')"

section \<open>Auxiliary facts\<close>

lemma and_then_Inl [simp]: "and_then (Inl e) f = Inl e"
  by (simp add: and_then_def)

lemma and_then_Inr [simp]: "and_then (Inr x) f = f x"
  by (simp add: and_then_def)

lemmas new_defs =
  new_GeminiError_def new_GeminiAPIError_def new_GeminiAuthenticationError_def
  new_GeminiRateLimitError_def new_GeminiModelNotFoundError_def
  new_GeminiInvalidRequestError_def new_GeminiContextLengthExceededError_def
  new_GeminiServerError_def new_GeminiTimeoutError_def

text \<open>
  The \<^verbatim>\<open>if\<close>/\<^verbatim>\<open>elif\<close> chain of lines 74 to 91 on a string message: the exception
  it builds, row by row.
\<close>

lemma classify_precedence:
  "(code = 401 \<longrightarrow>
      classify pystr code (JStr m) data =
        Gemini GeminiAuthenticationError (JStr ''Invalid API key'') (Some 401))
   \<and> (code = 429 \<longrightarrow>
      classify pystr code (JStr m) data = Gemini GeminiRateLimitError (JStr m) (Some 429))
   \<and> (code = 404 \<and> contains ''model not found'' (map lower_char m) \<longrightarrow>
      classify pystr code (JStr m) data =
        new_GeminiModelNotFoundError pystr (requested_model data))
   \<and> (code = 400 \<and> contains ''context length exceeded'' (map lower_char m) \<longrightarrow>
      classify pystr code (JStr m) data =
        Gemini GeminiContextLengthExceededError (JStr m) (Some 400))
   \<and> (code = 400 \<and> \<not> contains ''context length exceeded'' (map lower_char m) \<longrightarrow>
      classify pystr code (JStr m) data = Gemini GeminiInvalidRequestError (JStr m) (Some 400))
   \<and> (code \<ge> 500 \<longrightarrow>
      classify pystr code (JStr m) data = Gemini GeminiServerError (JStr m) (Some 500))
   \<and> (code \<noteq> 401 \<and> code \<noteq> 429 \<and> code \<noteq> 400 \<and> code < 500
      \<and> \<not> (code = 404 \<and> contains ''model not found'' (map lower_char m)) \<longrightarrow>
      classify pystr code (JStr m) data = Gemini GeminiAPIError (JStr m) (Some code))"
  by (simp add: classify_def new_defs)

text \<open>
  No exception leaves \<^verbatim>\<open>_make_request\<close> as it was raised: a response that is not ok,
  and a request that raises, both end in \<^verbatim>\<open>TypeError\<close>.
\<close>

lemma make_request_not_ok:
  assumes "tr (request_of self method endpoint data) = Inr r" and "\<not> ok r"
  shows "make_request pystr self tr method endpoint data stream = Inl TypeError"
  using assms by (simp add: make_request_def except_clauses_def)

lemma make_request_raises:
  assumes "tr (request_of self method endpoint data) = Inl e"
  shows "make_request pystr self tr method endpoint data stream = Inl TypeError"
  using assms by (simp add: make_request_def except_clauses_def)

text \<open>The request body \<^verbatim>\<open>generate_content\<close> builds never has a \<^verbatim>\<open>"model"\<close> key.\<close>

lemma requested_model_payload:
  "requested_model (case payload messages t n of Inl e \<Rightarrow> None | Inr d \<Rightarrow> Some d) =
     JStr ''unknown''"
  by (cases "contents_of messages") (simp_all add: payload_def requested_model_def)

text \<open>\<^verbatim>\<open>update_config\<close> rebinds the module's globals and leaves the client as built.\<close>

lemma update_config_keeps_client:
  "gemini_client (snd (update_config config s)) = gemini_client s"
  by (simp add: update_config_def)

text \<open>A line that does not parse is skipped.\<close>

lemma stream_lines_skips_unparseable:
  "stream_lines (\<lambda>l. if l = line then Inl JSONDecodeError else loads l) (line # rest) fin =
   stream_lines (\<lambda>l. if l = line then Inl JSONDecodeError else loads l) rest fin"
  by simp

section \<open>Properties of the adapter\<close>

text \<open>
  C1. The block under \<^verbatim>\<open>if not response.ok\<close> builds the exception the precedence
  asks for (RateLimit with the provider's message for a 429, Authentication for a 401),
  but no such exception leaves \<^verbatim>\<open>_make_request\<close>: the first \<^verbatim>\<open>except\<close> clause
  turns it into \<^verbatim>\<open>TypeError\<close>, so the caller sees no class of \<^verbatim>\<open>errors.py\<close> at all.
\<close>

theorem C1_classified_error_replaced:
  "raise_not_ok pystr
     \<lparr>ok = False, status = 429,
      json_body = Inr (JObj [(''error'', JObj [(''message'', JStr ''quota exceeded'')])]),
      content = ([], None)\<rparr> data =
     Gemini GeminiRateLimitError (JStr ''quota exceeded'') (Some 429)
   \<and> make_request pystr self
       (\<lambda>req. Inr \<lparr>ok = False, status = 429,
                   json_body = Inr (JObj [(''error'', JObj
                     [(''message'', JStr ''quota exceeded'')])]),
                   content = ([], None)\<rparr>)
       method endpoint data stream = Inl TypeError
   \<and> raised_class (make_request pystr self
       (\<lambda>req. Inr \<lparr>ok = False, status = 429,
                   json_body = Inr (JObj [(''error'', JObj
                     [(''message'', JStr ''quota exceeded'')])]),
                   content = ([], None)\<rparr>)
       method endpoint data stream) = None
   \<and> raise_not_ok pystr
     \<lparr>ok = False, status = 401,
      json_body = Inr (JObj [(''error'', JObj [(''message'', JStr ''API key not valid'')])]),
      content = ([], None)\<rparr> data =
     Gemini GeminiAuthenticationError (JStr ''Invalid API key'') (Some 401)
   \<and> make_request pystr self
       (\<lambda>req. Inr \<lparr>ok = False, status = 401,
                   json_body = Inr (JObj [(''error'', JObj
                     [(''message'', JStr ''API key not valid'')])]),
                   content = ([], None)\<rparr>)
       method endpoint data stream = Inl TypeError"
proof -
  have block:
    "raise_not_ok pystr
       \<lparr>ok = False, status = 429,
        json_body = Inr (JObj [(''error'', JObj [(''message'', JStr ''quota exceeded'')])]),
        content = ([], None)\<rparr> data =
       Gemini GeminiRateLimitError (JStr ''quota exceeded'') (Some 429)"
    "raise_not_ok pystr
       \<lparr>ok = False, status = 401,
        json_body = Inr (JObj [(''error'', JObj [(''message'', JStr ''API key not valid'')])]),
        content = ([], None)\<rparr> data =
       Gemini GeminiAuthenticationError (JStr ''Invalid API key'') (Some 401)"
    by (simp_all add: raise_not_ok_def classify_def new_defs)
  have left: "make_request pystr self (\<lambda>req. Inr (r\<lparr>ok := False\<rparr>)) method endpoint data stream =
                Inl TypeError" for r
    by (simp add: make_request_def except_clauses_def)
  show ?thesis
    using block left [of "\<lparr>ok = False, status = 429,
        json_body = Inr (JObj [(''error'', JObj [(''message'', JStr ''quota exceeded'')])]),
        content = ([], None)\<rparr>"]
      left [of "\<lparr>ok = False, status = 401,
        json_body = Inr (JObj [(''error'', JObj [(''message'', JStr ''API key not valid'')])]),
        content = ([], None)\<rparr>"]
    by simp
qed

text \<open>
  C2. For a generation request for model \<^verbatim>\<open>bad-model\<close> the client hands
  \<^verbatim>\<open>_make_request\<close> the request body as \<^verbatim>\<open>data\<close>, with the keys
  \<^verbatim>\<open>"contents"\<close> and \<^verbatim>\<open>"generationConfig"\<close> only. On HTTP 404 with the provider
  message "model not found" the block looks the model up under the key \<^verbatim>\<open>"model"\<close> of
  that body and builds ModelNotFound with the message naming the model \<^verbatim>\<open>unknown\<close>:
  the requested id does not occur in it. The \<^verbatim>\<open>except\<close> clauses then turn that
  exception into \<^verbatim>\<open>TypeError\<close>.
\<close>

theorem C2_model_name_lost:
  "raise_not_ok pystr
     \<lparr>ok = False, status = 404,
      json_body = Inr (JObj [(''error'', JObj [(''message'', JStr ''model not found'')])]),
      content = ([], None)\<rparr>
     (Some [(''contents'', JArr
               [JObj [(''role'', JStr ''user''), (''parts'', JArr [JObj [(''text'', JStr ''hi'')]])]]),
            (''generationConfig'', JObj
               [(''temperature'', JNull), (''maxOutputTokens'', JNull)])]) =
   Gemini GeminiModelNotFoundError
     (JStr (''Model '' @ [CHR 0x27] @ ''unknown'' @ [CHR 0x27] @ '' not found'')) (Some 404)
   \<and> \<not> contains ''bad-model'' (''Model '' @ [CHR 0x27] @ ''unknown'' @ [CHR 0x27] @ '' not found'')
   \<and> make_request pystr self
       (\<lambda>req. Inr \<lparr>ok = False, status = 404,
                   json_body = Inr (JObj [(''error'', JObj
                     [(''message'', JStr ''model not found'')])]),
                   content = ([], None)\<rparr>)
       ''POST'' ''bad-model:generateContent''
       (Some [(''contents'', JArr
                 [JObj [(''role'', JStr ''user''),
                        (''parts'', JArr [JObj [(''text'', JStr ''hi'')]])]]),
              (''generationConfig'', JObj
                 [(''temperature'', JNull), (''maxOutputTokens'', JNull)])])
       False = Inl TypeError"
  by (simp add: raise_not_ok_def classify_def requested_model_def new_defs
      lower_char_def char_of_def make_request_def except_clauses_def)

text \<open>
  C3. The client is built once from the key \<^verbatim>\<open>old-key\<close> and the base URL
  \<^verbatim>\<open>https://old.example\<close>; \<^verbatim>\<open>update_config\<close> then sets \<^verbatim>\<open>new-key\<close> and
  \<^verbatim>\<open>https://new.example\<close>. The module's globals hold the new values, the client still
  holds the old ones, and the request of the next model listing goes to the old URL with
  the old key.
\<close>

theorem C3_client_keeps_old_configuration:
  "GeminiClient_init
     \<lparr>env_GEMINI_API_KEY = Some ''old-key'',
      env_GEMINI_API_BASE_URL = Some ''https://old.example'',
      env_AIOHTTP_CLIENT_TIMEOUT = None,
      env_ENABLE_GEMINI_API = True\<rparr> None None None =
     Inr \<lparr>api_key = Some ''old-key'', api_base_url = Some ''https://old.example'',
          timeout = Some 300\<rparr>
   \<and> snd (update_config
            \<lparr>cfg_api_key = ''new-key'', cfg_api_base_url = ''https://new.example'',
             cfg_enabled = True\<rparr>
            \<lparr>GEMINI_API_KEY = Some ''old-key'',
             GEMINI_API_BASE_URL = Some ''https://old.example'',
             ENABLE_GEMINI_API = True,
             gemini_client = \<lparr>api_key = Some ''old-key'',
                              api_base_url = Some ''https://old.example'',
                              timeout = Some 300\<rparr>\<rparr>) =
       \<lparr>GEMINI_API_KEY = Some ''new-key'',
        GEMINI_API_BASE_URL = Some ''https://new.example'',
        ENABLE_GEMINI_API = True,
        gemini_client = \<lparr>api_key = Some ''old-key'',
                         api_base_url = Some ''https://old.example'',
                         timeout = Some 300\<rparr>\<rparr>
   \<and> request_of
         (gemini_client
            \<lparr>GEMINI_API_KEY = Some ''new-key'',
             GEMINI_API_BASE_URL = Some ''https://new.example'',
             ENABLE_GEMINI_API = True,
             gemini_client = \<lparr>api_key = Some ''old-key'',
                              api_base_url = Some ''https://old.example'',
                              timeout = Some 300\<rparr>\<rparr>)
         ''GET'' [] None =
       \<lparr>req_method = ''GET'',
        req_url = ''https://old.example/'',
        req_headers = [(''Content-Type'', Some ''application/json''),
                       (''x-goog-api-key'', Some ''old-key'')],
        req_json = None,
        req_total_timeout = Some 300\<rparr>"
proof -
  have built: "GeminiClient_init
                 \<lparr>env_GEMINI_API_KEY = Some ''old-key'',
                  env_GEMINI_API_BASE_URL = Some ''https://old.example'',
                  env_AIOHTTP_CLIENT_TIMEOUT = None,
                  env_ENABLE_GEMINI_API = True\<rparr> None None None =
               Inr \<lparr>api_key = Some ''old-key'', api_base_url = Some ''https://old.example'',
                    timeout = Some 300\<rparr>"
    by (simp add: GeminiClient_init_def or_str_def or_int_def)
  show ?thesis
    by (simp add: built update_config_def request_of_def)
qed

text \<open>
  C4. For a provider response whose candidate list is non-empty, whose first candidate
  has content with a non-empty list of parts, and whose first part has a text,
  normalization returns one choice with role \<^verbatim>\<open>assistant\<close>, the first part's text as it
  is, the candidate's \<^verbatim>\<open>finishReason\<close> (\<^verbatim>\<open>"stop"\<close> when absent), and usage counters
  that are all zero.
\<close>

theorem C4_normalized_response:
  assumes "map_of kvs ''candidates'' = Some (JArr (JObj ckvs # cands))"
    and "map_of ckvs ''content'' = Some (JObj content_kvs)"
    and "map_of content_kvs ''parts'' = Some (JArr (JObj pkvs # parts))"
    and "map_of pkvs ''text'' = Some text"
  shows "process_response (JObj kvs) =
           Inr (JObj
             [(''choices'', JArr
                 [JObj
                    [(''message'', JObj [(''role'', JStr ''assistant''), (''content'', text)]),
                     (''finish_reason'',
                        case map_of ckvs ''finishReason'' of
                          Some f \<Rightarrow> f
                        | None \<Rightarrow> JStr ''stop'')]]),
              (''usage'', JObj
                 [(''prompt_tokens'', JInt 0),
                  (''completion_tokens'', JInt 0),
                  (''total_tokens'', JInt 0)])])"
proof -
  have "process_response_try (JObj kvs) =
           Inr (JObj
             [(''choices'', JArr
                 [JObj
                    [(''message'', JObj [(''role'', JStr ''assistant''), (''content'', text)]),
                     (''finish_reason'',
                        case map_of ckvs ''finishReason'' of
                          Some f \<Rightarrow> f
                        | None \<Rightarrow> JStr ''stop'')]]),
              (''usage'', JObj
                 [(''prompt_tokens'', JInt 0),
                  (''completion_tokens'', JInt 0),
                  (''total_tokens'', JInt 0)])])"
    using assms by (simp add: process_response_try_def)
  then show ?thesis by (simp add: process_response_def)
qed

theorem C4_normalized_response_witness:
  "map_of [(''candidates'', JArr
        [JObj [(''content'', JObj [(''parts'', JArr [JObj [(''text'', JStr ''hello'')]])]),
               (''finishReason'', JStr ''stop'')]])] ''candidates'' =
     Some (JArr
        [JObj [(''content'', JObj [(''parts'', JArr [JObj [(''text'', JStr ''hello'')]])]),
               (''finishReason'', JStr ''stop'')]])
   \<and> process_response
     (JObj [(''candidates'', JArr
        [JObj [(''content'', JObj [(''parts'', JArr [JObj [(''text'', JStr ''hello'')]])]),
               (''finishReason'', JStr ''stop'')]])]) =
   Inr (JObj
     [(''choices'', JArr
         [JObj
            [(''message'', JObj [(''role'', JStr ''assistant''), (''content'', JStr ''hello'')]),
             (''finish_reason'', JStr ''stop'')]]),
      (''usage'', JObj
         [(''prompt_tokens'', JInt 0),
          (''completion_tokens'', JInt 0),
          (''total_tokens'', JInt 0)])])"
  using C4_normalized_response
    [of "[(''candidates'', JArr
        [JObj [(''content'', JObj [(''parts'', JArr [JObj [(''text'', JStr ''hello'')]])]),
               (''finishReason'', JStr ''stop'')]])]"
        "[(''content'', JObj [(''parts'', JArr [JObj [(''text'', JStr ''hello'')]])]),
               (''finishReason'', JStr ''stop'')]"
        "[]" "[(''parts'', JArr [JObj [(''text'', JStr ''hello'')]])]"
        "[(''text'', JStr ''hello'')]" "[]" "JStr ''hello''"]
  by simp

text \<open>
  C5. The router's generator ends without any terminal event as soon as the client's
  generator delivers a chunk: \<^verbatim>\<open>json.dumps\<close> raises \<^verbatim>\<open>NameError\<close>, which
  \<^verbatim>\<open>except GeminiError\<close> does not catch, so no data event, no error event and no
  \<^verbatim>\<open>[DONE]\<close> is yielded. The same happens when the client's generator ends with an
  exception of \<^verbatim>\<open>errors.py\<close> (the handler's own \<^verbatim>\<open>json.dumps\<close>), and any other
  exception passes through as it is.
\<close>

theorem C5_stream_without_terminal_marker:
  "generate (chunk # chunks, fin) = ([], Some NameError)
   \<and> generate ([], Some (Gemini GeminiError (JStr ''No response from the model'') None)) =
       ([], Some NameError)
   \<and> generate ([], Some (ClientError ''Response payload is not completed'')) =
       ([], Some (ClientError ''Response payload is not completed''))
   \<and> generate ([], Some AttributeError) = ([], Some AttributeError)"
  by (simp add: generate_def)

text \<open>
  C6. For a provider response with no candidate list or an empty one, normalization
  raises the base class \<^verbatim>\<open>GeminiError\<close>, with no status code, and the message
  "No response from the model"; when the first candidate has no content, or content with
  no parts list or an empty one, it raises the same class with the message
  "Empty response from the model". The error is not an InvalidRequest one: the
  counterexample shows the class and the absent status code.
\<close>

theorem C6_empty_responses:
  "(map_of kvs ''candidates'' = None \<or> map_of kvs ''candidates'' = Some (JArr [])
      \<longrightarrow> process_response (JObj kvs) =
            Inl (Gemini GeminiError (JStr ''No response from the model'') None))
   \<and> (map_of kvs ''candidates'' = Some (JArr (JObj ckvs # cands))
        \<and> (map_of ckvs ''content'' = None
           \<or> map_of ckvs ''content'' = Some (JObj content_kvs)
             \<and> (map_of content_kvs ''parts'' = None
                \<or> map_of content_kvs ''parts'' = Some (JArr [])))
      \<longrightarrow> process_response (JObj kvs) =
            Inl (Gemini GeminiError (JStr ''Empty response from the model'') None))"
proof (intro conjI impI)
  assume "map_of kvs ''candidates'' = None \<or> map_of kvs ''candidates'' = Some (JArr [])"
  then have "process_response_try (JObj kvs) =
               Inl (Gemini GeminiError (JStr ''No response from the model'') None)"
    by (auto simp add: process_response_try_def new_GeminiError_def)
  then show "process_response (JObj kvs) =
               Inl (Gemini GeminiError (JStr ''No response from the model'') None)"
    by (simp add: process_response_def)
next
  assume "map_of kvs ''candidates'' = Some (JArr (JObj ckvs # cands))
        \<and> (map_of ckvs ''content'' = None
           \<or> map_of ckvs ''content'' = Some (JObj content_kvs)
             \<and> (map_of content_kvs ''parts'' = None
                \<or> map_of content_kvs ''parts'' = Some (JArr [])))"
  then have "process_response_try (JObj kvs) =
               Inl (Gemini GeminiError (JStr ''Empty response from the model'') None)"
    by (auto simp add: process_response_try_def new_GeminiError_def)
  then show "process_response (JObj kvs) =
               Inl (Gemini GeminiError (JStr ''Empty response from the model'') None)"
    by (simp add: process_response_def)
qed

theorem C6_empty_responses_witness:
  "map_of [(''candidates'', JArr [])] ''candidates'' = Some (JArr [])
   \<and> process_response (JObj [(''candidates'', JArr [])]) =
       Inl (Gemini GeminiError (JStr ''No response from the model'') None)
   \<and> map_of [(''candidates'', JArr [JObj [(''content'', JObj [(''parts'', JArr [])])]])]
       ''candidates'' = Some (JArr [JObj [(''content'', JObj [(''parts'', JArr [])])]])
   \<and> process_response
       (JObj [(''candidates'', JArr [JObj [(''content'', JObj [(''parts'', JArr [])])]])]) =
       Inl (Gemini GeminiError (JStr ''Empty response from the model'') None)"
  using C6_empty_responses [of "[(''candidates'', JArr [])]" "[]" "[]" "[]"]
    C6_empty_responses
      [of "[(''candidates'', JArr [JObj [(''content'', JObj [(''parts'', JArr [])])]])]"
          "[(''content'', JObj [(''parts'', JArr [])])]" "[]" "[(''parts'', JArr [])]"]
  by simp

theorem C6_not_invalid_request:
  "process_response (JObj [(''candidates'', JArr [])]) =
     Inl (Gemini GeminiError (JStr ''No response from the model'') None)
   \<and> raised_class (process_response (JObj [(''candidates'', JArr [])])) \<noteq>
       Some GeminiInvalidRequestError
   \<and> \<not> issubclass GeminiError GeminiInvalidRequestError
   \<and> raised_status_code (process_response (JObj [(''candidates'', JArr [])])) \<noteq> Some 400
   \<and> process_response (JObj [(''candidates'', JArr [JObj [(''content'', JObj [])]])]) =
       Inl (Gemini GeminiError (JStr ''Empty response from the model'') None)"
  by (simp add: process_response_def process_response_try_def new_GeminiError_def)

text \<open>
  C7. When neither the argument nor the configuration gives a key (each is \<^verbatim>\<open>None\<close> or
  empty), construction raises \<^verbatim>\<open>GeminiError\<close> with the message
  "Gemini API key is required". Construction takes no transport: it reads its arguments
  and the configuration only, so nothing is sent before it fails.
\<close>

theorem C7_missing_api_key:
  assumes "\<not> truthy_str key" and "\<not> truthy_str (env_GEMINI_API_KEY e)"
  shows "GeminiClient_init e key base_url t =
           Inl (Gemini GeminiError (JStr ''Gemini API key is required'') None)"
proof -
  have "\<not> truthy_str (or_str key (env_GEMINI_API_KEY e))"
    using assms by (simp add: or_str_def)
  then show ?thesis
    by (simp add: GeminiClient_init_def new_GeminiError_def Let_def)
qed

theorem C7_missing_api_key_witness:
  "\<not> truthy_str None
   \<and> \<not> truthy_str (env_GEMINI_API_KEY
        \<lparr>env_GEMINI_API_KEY = Some [], env_GEMINI_API_BASE_URL = Some ''https://api.example'',
         env_AIOHTTP_CLIENT_TIMEOUT = None, env_ENABLE_GEMINI_API = True\<rparr>)
   \<and> GeminiClient_init
        \<lparr>env_GEMINI_API_KEY = Some [], env_GEMINI_API_BASE_URL = Some ''https://api.example'',
         env_AIOHTTP_CLIENT_TIMEOUT = None, env_ENABLE_GEMINI_API = True\<rparr>
        None None None =
      Inl (Gemini GeminiError (JStr ''Gemini API key is required'') None)"
proof -
  have h1: "\<not> truthy_str None" by simp
  have h2: "\<not> truthy_str (env_GEMINI_API_KEY
        \<lparr>env_GEMINI_API_KEY = Some [], env_GEMINI_API_BASE_URL = Some ''https://api.example'',
         env_AIOHTTP_CLIENT_TIMEOUT = None, env_ENABLE_GEMINI_API = True\<rparr>)"
    by simp
  from C7_missing_api_key [OF h1 h2, of None None] h1 h2 show ?thesis by simp
qed

text \<open>
  C8. No transport fault or timeout is wrapped. Raised by the request itself, it meets
  the \<^verbatim>\<open>except\<close> clauses of \<^verbatim>\<open>_make_request\<close> and leaves as \<^verbatim>\<open>TypeError\<close>, as does
  the decoder's exception for an error body that is not JSON. Raised while
  \<^verbatim>\<open>list_models\<close> reads the body of a successful response, outside those clauses, it
  leaves the operation as it is. In neither case does the caller get an exception of
  \<^verbatim>\<open>errors.py\<close>.
\<close>

theorem C8_raw_exception_escapes:
  "make_request pystr self (\<lambda>req. Inl (ClientError s)) method endpoint data stream =
     Inl TypeError
   \<and> make_request pystr self (\<lambda>req. Inl AsyncioTimeoutError) method endpoint data stream =
     Inl TypeError
   \<and> list_models pystr self (\<lambda>req. Inl AsyncioTimeoutError) = Inl TypeError
   \<and> list_models pystr self
     (\<lambda>req. Inr \<lparr>ok = True, status = 200,
                 json_body = Inl (ClientError ''Response payload is not completed''),
                 content = ([], None)\<rparr>) =
     Inl (ClientError ''Response payload is not completed'')
   \<and> list_models pystr self
     (\<lambda>req. Inr \<lparr>ok = True, status = 200,
                 json_body = Inl AsyncioTimeoutError,
                 content = ([], None)\<rparr>) =
     Inl AsyncioTimeoutError
   \<and> list_models pystr self
     (\<lambda>req. Inr \<lparr>ok = False, status = 503,
                 json_body = Inl JSONDecodeError,
                 content = ([], None)\<rparr>) =
     Inl TypeError"
  by (simp add: list_models_def make_request_def raise_not_ok_def except_clauses_def)

text \<open>
  C9. For HTTP 404 with a provider message that does not contain "model not found", the
  block under \<^verbatim>\<open>if not response.ok\<close> builds the generic \<^verbatim>\<open>GeminiAPIError\<close> with
  that message and status code 404, but the \<^verbatim>\<open>except\<close> clauses turn it into
  \<^verbatim>\<open>TypeError\<close>: the client raises no \<^verbatim>\<open>GeminiAPIError\<close>.
\<close>

theorem C9_other_404_replaced:
  "raise_not_ok pystr
     \<lparr>ok = False, status = 404,
      json_body = Inr (JObj [(''error'', JObj [(''message'', JStr ''Resource Not Found'')])]),
      content = ([], None)\<rparr> data =
     Gemini GeminiAPIError (JStr ''Resource Not Found'') (Some 404)
   \<and> make_request pystr self
       (\<lambda>req. Inr \<lparr>ok = False, status = 404,
                   json_body = Inr (JObj [(''error'', JObj
                     [(''message'', JStr ''Resource Not Found'')])]),
                   content = ([], None)\<rparr>)
       method endpoint data stream = Inl TypeError
   \<and> raised_status_code (make_request pystr self
       (\<lambda>req. Inr \<lparr>ok = False, status = 404,
                   json_body = Inr (JObj [(''error'', JObj
                     [(''message'', JStr ''Resource Not Found'')])]),
                   content = ([], None)\<rparr>)
       method endpoint data stream) = None"
proof -
  have "raise_not_ok pystr
     \<lparr>ok = False, status = 404,
      json_body = Inr (JObj [(''error'', JObj [(''message'', JStr ''Resource Not Found'')])]),
      content = ([], None)\<rparr> data =
     Gemini GeminiAPIError (JStr ''Resource Not Found'') (Some 404)"
    by (simp add: raise_not_ok_def classify_def lower_char_def char_of_def
        new_GeminiAPIError_def)
  then show ?thesis
    by (simp add: make_request_def except_clauses_def)
qed

text \<open>
  C10. For a provider response whose first candidate has a non-empty list of parts and
  whose first part has no \<^verbatim>\<open>text\<close> field, normalization succeeds and the content of the
  single choice is the empty string.
\<close>

theorem C10_missing_text:
  assumes "map_of kvs ''candidates'' = Some (JArr (JObj ckvs # cands))"
    and "map_of ckvs ''content'' = Some (JObj content_kvs)"
    and "map_of content_kvs ''parts'' = Some (JArr (JObj pkvs # parts))"
    and "map_of pkvs ''text'' = None"
  shows "process_response (JObj kvs) =
           Inr (JObj
             [(''choices'', JArr
                 [JObj
                    [(''message'', JObj [(''role'', JStr ''assistant''), (''content'', JStr [])]),
                     (''finish_reason'',
                        case map_of ckvs ''finishReason'' of
                          Some f \<Rightarrow> f
                        | None \<Rightarrow> JStr ''stop'')]]),
              (''usage'', JObj
                 [(''prompt_tokens'', JInt 0),
                  (''completion_tokens'', JInt 0),
                  (''total_tokens'', JInt 0)])])"
  using assms by (simp add: process_response_def process_response_try_def)

theorem C10_missing_text_witness:
  "map_of [(''inlineData'', JObj [])] ''text'' = None
   \<and> process_response
     (JObj [(''candidates'', JArr
        [JObj [(''content'', JObj [(''parts'', JArr [JObj [(''inlineData'', JObj [])]])])]])]) =
   Inr (JObj
     [(''choices'', JArr
         [JObj
            [(''message'', JObj [(''role'', JStr ''assistant''), (''content'', JStr [])]),
             (''finish_reason'', JStr ''stop'')]]),
      (''usage'', JObj
         [(''prompt_tokens'', JInt 0),
          (''completion_tokens'', JInt 0),
          (''total_tokens'', JInt 0)])])"
  using C10_missing_text
    [of "[(''candidates'', JArr
        [JObj [(''content'', JObj [(''parts'', JArr [JObj [(''inlineData'', JObj [])]])])]])]"
        "[(''content'', JObj [(''parts'', JArr [JObj [(''inlineData'', JObj [])]])])]"
        "[]" "[(''parts'', JArr [JObj [(''inlineData'', JObj [])]])]"
        "[(''inlineData'', JObj [])]" "[]"]
  by simp

end
